theory Spec2Isabelle
  imports Complex_Main "HOL-Library.AList" "HOL-Library.Log_Nat" "HOL-Library.Multiset"
begin

chapter \<open>The remote-object synchronisation engine of ad_data_lake\<close>

text \<open>
  A shallow embedding of the retrying request executor (\<open>make_api_request\<close>), the payload
  normalisation layer (\<open>normalize_input_value\<close>, \<open>sanitize_payload\<close>), the creative
  assembly (\<open>build_creative_payload\<close>, \<open>update_object_story_spec\<close>), the hierarchical
  cloner (\<open>create_campaign_from_template\<close>) and the batch orchestrator
  (\<open>execute_batch_requests\<close>).
\<close>

section \<open>Python strings and numbers\<close>

text \<open>
  A Python \<open>str\<close> is modelled as a \<open>string\<close> whose characters are the code points below
  256. \<open>is_space\<close> is \<open>str.isspace\<close> on them, \<open>lower_char\<close> is \<open>str.lower\<close>, and
  \<open>is_digit_char\<close> is \<open>str.isdigit\<close>, which accepts the superscript digits that \<open>int\<close>
  rejects.
\<close>

definition is_space :: "char \<Rightarrow> bool" where
  "is_space c = (let n = (of_char c :: nat)
                 in (9 \<le> n \<and> n \<le> 13) \<or> (28 \<le> n \<and> n \<le> 32) \<or> n = 133 \<or> n = 160)"

definition py_strip :: "string \<Rightarrow> string" where
  "py_strip s = rev (dropWhile is_space (rev (dropWhile is_space s)))"

definition lower_char :: "char \<Rightarrow> char" where
  "lower_char c = (let n = (of_char c :: nat)
                   in if (65 \<le> n \<and> n \<le> 90) \<or> (192 \<le> n \<and> n \<le> 222 \<and> n \<noteq> 215)
                      then char_of (n + 32) else c)"

definition py_lower :: "string \<Rightarrow> string" where
  "py_lower s = map lower_char s"

fun split_on :: "char \<Rightarrow> string \<Rightarrow> string list" where
  "split_on sep [] = [[]]"
| "split_on sep (c # cs) =
     (if c = sep then [] # split_on sep cs
      else (case split_on sep cs of [] \<Rightarrow> [[c]] | t # ts \<Rightarrow> (c # t) # ts))"

definition startswith :: "string \<Rightarrow> string \<Rightarrow> bool" where
  "startswith s p = (take (length p) s = p)"

definition endswith :: "string \<Rightarrow> string \<Rightarrow> bool" where
  "endswith s p = (length p \<le> length s \<and> drop (length s - length p) s = p)"

definition is_ascii_digit :: "char \<Rightarrow> bool" where
  "is_ascii_digit c = (let n = (of_char c :: nat) in 48 \<le> n \<and> n \<le> 57)"

definition is_digit_char :: "char \<Rightarrow> bool" where
  "is_digit_char c = (is_ascii_digit c \<or> (of_char c :: nat) \<in> {178, 179, 185})"

definition py_isdigit :: "string \<Rightarrow> bool" where
  "py_isdigit s = (s \<noteq> [] \<and> list_all is_digit_char s)"

definition digit_val :: "char \<Rightarrow> int" where
  "digit_val c = of_char c - 48"

definition dec_value :: "string \<Rightarrow> int" where
  "dec_value s = foldl (\<lambda>a c. 10 * a + digit_val c) 0 s"

function digits_of :: "int \<Rightarrow> string" where
  "digits_of n = (if n < 10 then [char_of (48 + n)] else digits_of (n div 10) @ [char_of (48 + n mod 10)])"
  by pat_completeness auto
termination
  by (relation "measure nat") auto

declare digits_of.simps [simp del]

definition str_of_int :: "int \<Rightarrow> string" where
  "str_of_int i = (if i < 0 then CHR ''-'' # digits_of (- i) else digits_of i)"

datatype pyfloat = Finite rat | PosInf | NegInf | NaN

definition round_half_even :: "rat \<Rightarrow> int" where
  "round_half_even q =
     (let f = \<lfloor>q\<rfloor>; d = q - of_int f
      in if d < 1 / 2 then f else if 1 / 2 < d then f + 1 else if even f then f else f + 1)"

definition floor_log2 :: "rat \<Rightarrow> int" where
  "floor_log2 q = (case quotient_of q of (a, b) \<Rightarrow>
      (let k = bitlen a - bitlen b in if power_int 2 k \<le> q then k else k - 1))"

definition to_double :: "rat \<Rightarrow> pyfloat" where
  "to_double q =
     (if q = 0 then Finite 0
      else (let s = \<bar>q\<bar>;
                e = max (floor_log2 s) (- 1022);
                ulp = power_int 2 (e - 52);
                m = round_half_even (s / ulp)
            in if 1023 < e \<or> (e = 1023 \<and> 2 ^ 53 \<le> m) then (if 0 < q then PosInf else NegInf)
               else Finite (if 0 < q then of_int m * ulp else - (of_int m * ulp))))"


definition fneg :: "pyfloat \<Rightarrow> pyfloat" where
  "fneg f = (case f of Finite q \<Rightarrow> Finite (- q) | PosInf \<Rightarrow> NegInf | NegInf \<Rightarrow> PosInf | NaN \<Rightarrow> NaN)"

fun no_adjacent_underscores :: "string \<Rightarrow> bool" where
  "no_adjacent_underscores (a # b # cs) =
     (\<not> (a = CHR ''_'' \<and> b = CHR ''_'') \<and> no_adjacent_underscores (b # cs))"
| "no_adjacent_underscores cs = True"

definition valid_digitpart :: "string \<Rightarrow> bool" where
  "valid_digitpart s =
     (s \<noteq> [] \<and> list_all (\<lambda>c. is_ascii_digit c \<or> c = CHR ''_'') s
      \<and> is_ascii_digit (hd s) \<and> is_ascii_digit (last s) \<and> no_adjacent_underscores s)"

definition digitpart_value :: "string \<Rightarrow> int" where
  "digitpart_value s = dec_value (filter is_ascii_digit s)"

definition digitpart_len :: "string \<Rightarrow> nat" where
  "digitpart_len s = length (filter is_ascii_digit s)"

definition parse_exponent :: "string \<Rightarrow> int option" where
  "parse_exponent s =
     (case s of
        [] \<Rightarrow> None
      | c # cs \<Rightarrow>
          if c = CHR ''-'' then (if valid_digitpart cs then Some (- digitpart_value cs) else None)
          else if c = CHR ''+'' then (if valid_digitpart cs then Some (digitpart_value cs) else None)
          else if valid_digitpart s then Some (digitpart_value s) else None)"

definition parse_mantissa :: "string \<Rightarrow> rat option" where
  "parse_mantissa s =
     (let ip = takeWhile (\<lambda>c. c \<noteq> CHR ''.'') s;
          rest = dropWhile (\<lambda>c. c \<noteq> CHR ''.'') s
      in case rest of
           [] \<Rightarrow> (if valid_digitpart ip then Some (of_int (digitpart_value ip)) else None)
         | d # fp \<Rightarrow>
             if (ip = [] \<or> valid_digitpart ip) \<and> (fp = [] \<or> valid_digitpart fp) \<and> \<not> (ip = [] \<and> fp = [])
             then Some (of_int (digitpart_value ip) + of_int (digitpart_value fp) / 10 ^ digitpart_len fp)
             else None)"

definition parse_abs_float :: "string \<Rightarrow> pyfloat option" where
  "parse_abs_float s =
     (let l = py_lower s
      in if l = ''inf'' \<or> l = ''infinity'' then Some PosInf
         else if l = ''nan'' then Some NaN
         else (let m = takeWhile (\<lambda>c. c \<noteq> CHR ''e'' \<and> c \<noteq> CHR ''E'') s;
                   rest = dropWhile (\<lambda>c. c \<noteq> CHR ''e'' \<and> c \<noteq> CHR ''E'') s
               in case parse_mantissa m of
                    None \<Rightarrow> None
                  | Some q \<Rightarrow>
                      (case rest of
                         [] \<Rightarrow> Some (to_double q)
                       | x # ex \<Rightarrow>
                           (case parse_exponent ex of
                              None \<Rightarrow> None
                            | Some k \<Rightarrow> Some (to_double (q * power_int 10 k))))))"

definition float_of_string :: "string \<Rightarrow> pyfloat option" where
  "float_of_string s0 =
     (case py_strip s0 of
        [] \<Rightarrow> None
      | c # cs \<Rightarrow>
          if c = CHR ''-'' then map_option fneg (parse_abs_float cs)
          else if c = CHR ''+'' then parse_abs_float cs
          else parse_abs_float (c # cs))"


section \<open>Python values\<close>

datatype py_exception =
    ValueError | TypeError | OverflowError | AttributeError | KeyError | AssemblyError string
  | OtherException

datatype pyval =
    PNone | PBool bool | PInt int | PFloat pyfloat | PStr string
  | PList "pyval list" | PDict "(string \<times> pyval) list"

record datetime =
  wall_us :: int
  utcoffset_us :: "int option"

record pylib =
  json_loads :: "string \<Rightarrow> pyval option"
  fromisoformat :: "string \<Rightarrow> datetime option"
  strptime :: "string \<Rightarrow> string \<Rightarrow> datetime option"
  fromtimestamp :: "pyfloat \<Rightarrow> datetime option"
  isoformat :: "datetime \<Rightarrow> string"
  repr_of :: "pyval \<Rightarrow> string"

fun py_float :: "pyval \<Rightarrow> py_exception + pyfloat" where
  "py_float (PBool b) = Inr (Finite (if b then 1 else 0))"
| "py_float (PInt n) =
     (case to_double (of_int n) of
        Finite q \<Rightarrow> Inr (Finite q)
      | other \<Rightarrow> Inl OverflowError)"
| "py_float (PFloat f) = Inr f"
| "py_float (PStr s) = (case float_of_string s of None \<Rightarrow> Inl ValueError | Some f \<Rightarrow> Inr f)"
| "py_float v = Inl TypeError"

fun py_round :: "pyfloat \<Rightarrow> py_exception + int" where
  "py_round (Finite q) = Inr (round_half_even q)"
| "py_round NaN = Inl ValueError"
| "py_round f = Inl OverflowError"

fun py_int_of_float :: "pyfloat \<Rightarrow> py_exception + int" where
  "py_int_of_float (Finite q) = Inr (if 0 \<le> q then \<lfloor>q\<rfloor> else \<lceil>q\<rceil>)"
| "py_int_of_float NaN = Inl ValueError"
| "py_int_of_float f = Inl OverflowError"

fun float_le_zero :: "pyfloat \<Rightarrow> bool" where
  "float_le_zero (Finite q) = (q \<le> 0)"
| "float_le_zero NegInf = True"
| "float_le_zero f = False"

fun py_truthy :: "pyval \<Rightarrow> bool" where
  "py_truthy PNone = False"
| "py_truthy (PBool b) = b"
| "py_truthy (PInt n) = (n \<noteq> 0)"
| "py_truthy (PFloat f) = (f \<noteq> Finite 0)"
| "py_truthy (PStr s) = (s \<noteq> [])"
| "py_truthy (PList xs) = (xs \<noteq> [])"
| "py_truthy (PDict kvs) = (kvs \<noteq> [])"

fun py_str :: "pylib \<Rightarrow> pyval \<Rightarrow> string" where
  "py_str L PNone = ''None''"
| "py_str L (PBool b) = (if b then ''True'' else ''False'')"
| "py_str L (PInt n) = str_of_int n"
| "py_str L (PStr s) = s"
| "py_str L v = repr_of L v"

fun is_str :: "pyval \<Rightarrow> bool" where
  "is_str (PStr s) = True"
| "is_str v = False"

fun is_bool :: "pyval \<Rightarrow> bool" where
  "is_bool (PBool b) = True"
| "is_bool v = False"

fun is_dict :: "pyval \<Rightarrow> bool" where
  "is_dict (PDict kvs) = True"
| "is_dict v = False"

fun is_list :: "pyval \<Rightarrow> bool" where
  "is_list (PList xs) = True"
| "is_list v = False"

fun is_int_or_float :: "pyval \<Rightarrow> bool" where
  "is_int_or_float (PBool b) = True"
| "is_int_or_float (PInt n) = True"
| "is_int_or_float (PFloat f) = True"
| "is_int_or_float v = False"

definition has_key :: "(string \<times> pyval) list \<Rightarrow> string \<Rightarrow> bool" where
  "has_key d k = (map_of d k \<noteq> None)"

definition dict_get :: "(string \<times> pyval) list \<Rightarrow> string \<Rightarrow> pyval" where
  "dict_get d k = (case map_of d k of None \<Rightarrow> PNone | Some v \<Rightarrow> v)"

definition dict_get_default :: "(string \<times> pyval) list \<Rightarrow> string \<Rightarrow> pyval \<Rightarrow> pyval" where
  "dict_get_default d k dflt = (case map_of d k of None \<Rightarrow> dflt | Some v \<Rightarrow> v)"

definition dict_set :: "string \<Rightarrow> pyval \<Rightarrow> (string \<times> pyval) list \<Rightarrow> (string \<times> pyval) list" where
  "dict_set k v d = AList.update k v d"

definition dict_pop :: "string \<Rightarrow> (string \<times> pyval) list \<Rightarrow> (string \<times> pyval) list" where
  "dict_pop k d = AList.delete k d"

section \<open>Per-field normalisation: \<open>pages/1_Campaign_Cloner.py\<close>\<close>

definition BUDGET_FIELDS :: "string set" where
  "BUDGET_FIELDS = {''daily_budget'', ''lifetime_budget'', ''spend_cap'', ''bid_amount''}"

definition BOOLEAN_FIELDS :: "string set" where
  "BOOLEAN_FIELDS = {''is_dynamic_creative''}"

definition JSON_FIELD_HINTS :: "string set" where
  "JSON_FIELD_HINTS = {''promoted_object'', ''targeting'', ''attribution_spec'', ''special_ad_categories''}"

definition TRUTHY_VALUES :: "string set" where
  "TRUTHY_VALUES = {''true'', ''1'', ''yes'', ''y''}"

definition FALSY_VALUES :: "string set" where
  "FALSY_VALUES = {''false'', ''0'', ''no'', ''n''}"

definition split_strip_nonempty :: "string \<Rightarrow> string list" where
  "split_strip_nonempty s = map py_strip (filter (\<lambda>item. py_strip item \<noteq> []) (split_on CHR '','' s))"

fun normalize_budget :: "pylib \<Rightarrow> pyval \<Rightarrow> py_exception + pyval" where
  "normalize_budget L (PStr s) =
     (if s = [] then Inr PNone
      else (let trimmed = py_strip s
            in if trimmed = [] then Inr PNone
               else (case float_of_string trimmed of
                       None \<Rightarrow> Inr (PStr trimmed)
                     | Some f \<Rightarrow>
                         (case py_round f of
                            Inr n \<Rightarrow> Inr (PStr (str_of_int n))
                          | Inl e \<Rightarrow> if e = ValueError then Inr (PStr trimmed) else Inl e))))"
| "normalize_budget L (PBool b) = Inr (PStr (str_of_int (if b then 1 else 0)))"
| "normalize_budget L (PInt n) = Inr (PStr (str_of_int n))"
| "normalize_budget L (PFloat f) =
     (case py_round f of Inr n \<Rightarrow> Inr (PStr (str_of_int n)) | Inl e \<Rightarrow> Inl e)"
| "normalize_budget L v = Inr (PStr (py_str L v))"

fun normalize_boolean :: "pyval \<Rightarrow> pyval" where
  "normalize_boolean (PBool b) = PBool b"
| "normalize_boolean (PStr s) =
     (let lowered = py_lower (py_strip s)
      in if lowered \<in> TRUTHY_VALUES then PBool True
         else if lowered \<in> FALSY_VALUES then PBool False
         else PBool (py_truthy (PStr s)))"
| "normalize_boolean v = PBool (py_truthy v)"

fun normalize_structured_original :: "pylib \<Rightarrow> pyval \<Rightarrow> pyval \<Rightarrow> pyval" where
  "normalize_structured_original L (PStr s) original_value =
     (case json_loads L s of None \<Rightarrow> original_value | Some parsed \<Rightarrow> parsed)"
| "normalize_structured_original L v original_value = v"

fun normalize_json_hint :: "pylib \<Rightarrow> string \<Rightarrow> pyval \<Rightarrow> pyval" where
  "normalize_json_hint L field_name (PStr s) =
     (let trimmed = py_strip s
      in if trimmed = [] then (if field_name = ''special_ad_categories'' then PList [] else PNone)
         else (case json_loads L trimmed of
                 Some parsed \<Rightarrow> parsed
               | None \<Rightarrow>
                   if field_name = ''special_ad_categories''
                   then PList (map PStr (split_strip_nonempty trimmed))
                   else PStr s))"
| "normalize_json_hint L field_name v = v"

text \<open>
  \<open>type(original_value)(x)\<close> for an original that is an \<open>int\<close> or a \<open>float\<close> (a \<open>bool\<close> original
  is taken by the branch before).
\<close>

fun coerce_like :: "pyval \<Rightarrow> pyval \<Rightarrow> py_exception + pyval" where
  "coerce_like (PInt o1) (PBool b) = Inr (PInt (if b then 1 else 0))"
| "coerce_like (PInt o1) (PInt n) = Inr (PInt n)"
| "coerce_like (PInt o1) (PFloat f) = (case py_int_of_float f of Inl e \<Rightarrow> Inl e | Inr n \<Rightarrow> Inr (PInt n))"
| "coerce_like original_value v = (case py_float v of Inl e \<Rightarrow> Inl e | Inr f \<Rightarrow> Inr (PFloat f))"

text \<open>The branch for numeric originals; \<open>None\<close> when the source falls through to the next one.\<close>

fun normalize_numeric_original :: "pyval \<Rightarrow> pyval \<Rightarrow> (py_exception + pyval) option" where
  "normalize_numeric_original original_value (PStr s) =
     (let trimmed = py_strip s
      in if trimmed = [] then Some (Inr PNone)
         else (case float_of_string trimmed of
                 None \<Rightarrow> None
               | Some numeric \<Rightarrow>
                   (case coerce_like original_value (PFloat numeric) of
                      Inr r \<Rightarrow> Some (Inr r)
                    | Inl e \<Rightarrow> if e = ValueError \<or> e = TypeError then None else Some (Inl e))))"
| "normalize_numeric_original original_value v =
     (if is_int_or_float v then Some (coerce_like original_value v) else None)"

fun normalize_residual :: "pylib \<Rightarrow> pyval \<Rightarrow> pyval" where
  "normalize_residual L (PStr s) =
     (let trimmed = py_strip s;
          parsed = (if startswith trimmed ''{'' \<or> startswith trimmed ''[''
                    then json_loads L trimmed else None)
      in case parsed of
           Some j \<Rightarrow> j
         | None \<Rightarrow>
             if py_lower trimmed \<in> TRUTHY_VALUES then PBool True
             else if py_lower trimmed \<in> FALSY_VALUES then PBool False
             else PStr trimmed)"
| "normalize_residual L v = v"

definition normalize_input_value :: "pylib \<Rightarrow> string \<Rightarrow> pyval \<Rightarrow> pyval \<Rightarrow> py_exception + pyval" where
  "normalize_input_value L field_name v original_value =
     (if v = PNone then Inr PNone
      else if field_name \<in> BUDGET_FIELDS then normalize_budget L v
      else if field_name \<in> BOOLEAN_FIELDS \<or> is_bool original_value then Inr (normalize_boolean v)
      else if is_dict v \<or> is_list v then Inr v
      else if is_dict original_value \<or> is_list original_value
        then Inr (normalize_structured_original L v original_value)
      else if field_name \<in> JSON_FIELD_HINTS then Inr (normalize_json_hint L field_name v)
      else (case (if is_int_or_float original_value
                  then normalize_numeric_original original_value v else None) of
              Some r \<Rightarrow> r
            | None \<Rightarrow> Inr (normalize_residual L v)))"


section \<open>The structural sanitizer: \<open>src/utils/api_helpers.py\<close>\<close>

definition aware :: "datetime \<Rightarrow> datetime" where
  "aware dt = (case utcoffset_us dt of None \<Rightarrow> dt\<lparr>utcoffset_us := Some 0\<rparr> | Some off \<Rightarrow> dt)"

definition utc_instant :: "datetime \<Rightarrow> int" where
  "utc_instant dt = wall_us dt - (case utcoffset_us dt of None \<Rightarrow> 0 | Some off \<Rightarrow> off)"

definition parse_datetime_string :: "pylib \<Rightarrow> string \<Rightarrow> datetime option" where
  "parse_datetime_string L s =
     (let stripped = py_strip s;
          n = length stripped
      in if stripped = [] then None
         else (let normalized =
                     (if endswith stripped ''Z'' then butlast stripped @ ''+00:00''
                      else if 5 \<le> n \<and> stripped ! (n - 5) \<in> {CHR ''+'', CHR ''-''} \<and> stripped ! (n - 3) \<noteq> CHR '':''
                           then take (n - 2) stripped @ '':'' @ drop (n - 2) stripped
                      else stripped)
               in case fromisoformat L normalized of
                    Some parsed \<Rightarrow> Some (aware parsed)
                  | None \<Rightarrow>
                      (case strptime L stripped ''%Y-%m-%d %H:%M:%S'' of
                         Some parsed \<Rightarrow> Some (parsed\<lparr>utcoffset_us := Some 0\<rparr>)
                       | None \<Rightarrow>
                           (case strptime L stripped ''%Y-%m-%dT%H:%M:%S'' of
                              Some parsed \<Rightarrow> Some (parsed\<lparr>utcoffset_us := Some 0\<rparr>)
                            | None \<Rightarrow> None))))"

fun parse_datetime_value :: "pylib \<Rightarrow> pyval \<Rightarrow> datetime option" where
  "parse_datetime_value L (PStr s) = parse_datetime_string L s"
| "parse_datetime_value L v =
     (if is_int_or_float v
      then (case py_float v of Inl e \<Rightarrow> None | Inr f \<Rightarrow> fromtimestamp L f)
      else None)"

definition isoformat_datetime :: "pylib \<Rightarrow> datetime \<Rightarrow> string" where
  "isoformat_datetime L dt =
     (let tz_aware = aware dt
      in isoformat L (tz_aware\<lparr>wall_us := wall_us tz_aware - wall_us tz_aware mod 1000000\<rparr>))"

definition parse_positive_amount :: "pyval \<Rightarrow> py_exception + int option" where
  "parse_positive_amount v =
     (let parsed =
            (case v of
               PStr s \<Rightarrow>
                 (let trimmed = py_strip s
                  in if trimmed = [] then None
                     else (case float_of_string trimmed of None \<Rightarrow> None | Some f \<Rightarrow> Some (Inr f)))
             | other \<Rightarrow>
                 (case py_float v of
                    Inr f \<Rightarrow> Some (Inr f)
                  | Inl e \<Rightarrow> if e = TypeError \<or> e = ValueError then None else Some (Inl e)))
      in case parsed of
           None \<Rightarrow> Inr None
         | Some (Inl e) \<Rightarrow> Inl e
         | Some (Inr amount) \<Rightarrow>
             if float_le_zero amount then Inr None
             else (case py_round amount of Inl e \<Rightarrow> Inl e | Inr n \<Rightarrow> Inr (Some n)))"

fun skipped_item :: "pyval \<Rightarrow> bool" where
  "skipped_item PNone = True"
| "skipped_item (PStr s) = (s = [])"
| "skipped_item (PList xs) = (xs = [])"
| "skipped_item v = False"

fun collect_item :: "pylib \<Rightarrow> pyval \<Rightarrow> string list" where
  "collect_item L (PStr s) = (if py_strip s = [] then [] else [py_strip s])"
| "collect_item L v = (if skipped_item v then [] else [py_str L v])"

fun normalize_string_collection :: "pylib \<Rightarrow> pyval \<Rightarrow> string list option" where
  "normalize_string_collection L PNone = Some []"
| "normalize_string_collection L (PStr s) =
     (let trimmed = py_strip s
      in if trimmed = [] \<or> trimmed = ''[]'' then Some []
         else (case json_loads L trimmed of
                 None \<Rightarrow> Some (split_strip_nonempty trimmed)
               | Some (PList items) \<Rightarrow>
                   Some (filter (\<lambda>t. t \<noteq> []) (map (\<lambda>item. py_strip (py_str L item)) items))
               | Some PNone \<Rightarrow> Some []
               | Some parsed \<Rightarrow>
                   (let parsed_str = py_strip (py_str L parsed)
                    in if parsed_str = [] then Some [] else Some [parsed_str])))"
| "normalize_string_collection L (PList items) = Some (concat (map (collect_item L) items))"
| "normalize_string_collection L v = None"

definition rule_budgets :: "(string \<times> pyval) list \<Rightarrow> py_exception + (string \<times> pyval) list" where
  "rule_budgets values =
     (if has_key values ''daily_budget'' \<or> has_key values ''lifetime_budget'' then
        (case parse_positive_amount (dict_get values ''daily_budget'') of
           Inl e \<Rightarrow> Inl e
         | Inr daily_amount \<Rightarrow>
             (case parse_positive_amount (dict_get values ''lifetime_budget'') of
                Inl e \<Rightarrow> Inl e
              | Inr lifetime_amount \<Rightarrow>
                  (case daily_amount of
                     Some d \<Rightarrow> Inr (dict_pop ''lifetime_budget'' (dict_set ''daily_budget'' (PInt d) values))
                   | None \<Rightarrow>
                       (case lifetime_amount of
                          Some l \<Rightarrow> Inr (dict_pop ''daily_budget'' (dict_set ''lifetime_budget'' (PInt l) values))
                        | None \<Rightarrow> Inr (dict_pop ''lifetime_budget'' (dict_pop ''daily_budget'' values))))))
      else Inr values)"

fun spend_cap_absent_value :: "pyval \<Rightarrow> bool" where
  "spend_cap_absent_value PNone = True"
| "spend_cap_absent_value (PStr s) = (s = [] \<or> s = ''0'')"
| "spend_cap_absent_value (PInt n) = (n = 0)"
| "spend_cap_absent_value (PBool b) = (\<not> b)"
| "spend_cap_absent_value (PFloat f) = (f = Finite 0)"
| "spend_cap_absent_value v = False"

definition rule_spend_cap :: "(string \<times> pyval) list \<Rightarrow> py_exception + (string \<times> pyval) list" where
  "rule_spend_cap values =
     (if has_key values ''spend_cap'' then
        (let spend_cap_value =
               (case dict_get values ''spend_cap'' of PStr s \<Rightarrow> PStr (py_strip s) | v \<Rightarrow> v)
         in if spend_cap_absent_value spend_cap_value then Inr (dict_pop ''spend_cap'' values)
            else (case parse_positive_amount spend_cap_value of
                    Inl e \<Rightarrow> Inl e
                  | Inr (Some normalized_cap) \<Rightarrow> Inr (dict_set ''spend_cap'' (PInt normalized_cap) values)
                  | Inr None \<Rightarrow> Inr (dict_pop ''spend_cap'' values)))
      else Inr values)"

definition rule_special_ad_categories :: "pylib \<Rightarrow> nat \<Rightarrow> (string \<times> pyval) list \<Rightarrow> (string \<times> pyval) list" where
  "rule_special_ad_categories L depth values =
     (if depth = 0 \<or> has_key values ''special_ad_categories'' then
        (case normalize_string_collection L (dict_get values ''special_ad_categories'') of
           None \<Rightarrow>
             if depth = 0 then dict_set ''special_ad_categories'' (PList []) values
             else dict_pop ''special_ad_categories'' values
         | Some normalized_categories \<Rightarrow>
             dict_set ''special_ad_categories'' (PList (map PStr normalized_categories)) values)
      else values)"

definition brand_safety_fields :: "string list" where
  "brand_safety_fields =
     [''brand_safety_content_filter_levels'', ''brand_safety_content_severity_levels'',
      ''excluded_brand_safety_content_types'']"

definition rule_brand_safety_field :: "pylib \<Rightarrow> (string \<times> pyval) list \<Rightarrow> string \<Rightarrow> (string \<times> pyval) list" where
  "rule_brand_safety_field L values field_name =
     (if \<not> has_key values field_name then values
      else (case normalize_string_collection L (dict_get values field_name) of
              None \<Rightarrow> dict_pop field_name values
            | Some normalized_levels \<Rightarrow> dict_set field_name (PList (map PStr normalized_levels)) values))"

definition rule_brand_safety :: "pylib \<Rightarrow> (string \<times> pyval) list \<Rightarrow> (string \<times> pyval) list" where
  "rule_brand_safety L values = foldl (rule_brand_safety_field L) values brand_safety_fields"

fun none_or_empty :: "pyval \<Rightarrow> bool" where
  "none_or_empty PNone = True"
| "none_or_empty (PStr s) = (s = [])"
| "none_or_empty v = False"

definition rule_start_time :: "pylib \<Rightarrow> datetime \<Rightarrow> (string \<times> pyval) list \<Rightarrow> (string \<times> pyval) list" where
  "rule_start_time L now_utc values =
     (let start_time_value = dict_get values ''start_time''
      in if none_or_empty start_time_value then dict_pop ''start_time'' values
         else (case parse_datetime_value L start_time_value of
                 Some parsed_start \<Rightarrow>
                   dict_set ''start_time''
                     (PStr (isoformat_datetime L
                        (if utc_instant now_utc \<le> utc_instant parsed_start then parsed_start else now_utc)))
                     values
               | None \<Rightarrow> dict_pop ''start_time'' values))"

definition time_fields_for :: "string \<Rightarrow> string list" where
  "time_fields_for object_type =
     (if object_type = ''campaign'' then [''stop_time'']
      else if object_type = ''adset'' then [''end_time'', ''stop_time'']
      else [''stop_time'', ''end_time''])"

definition rule_time_field :: "pylib \<Rightarrow> (string \<times> pyval) list \<Rightarrow> string \<Rightarrow> (string \<times> pyval) list" where
  "rule_time_field L values time_field =
     (if \<not> has_key values time_field then values
      else (let v = dict_get values time_field
            in if none_or_empty v then dict_pop time_field values
               else (case parse_datetime_value L v of
                       Some parsed_time \<Rightarrow> dict_set time_field (PStr (isoformat_datetime L parsed_time)) values
                     | None \<Rightarrow> dict_pop time_field values)))"

definition rule_time_fields :: "pylib \<Rightarrow> string \<Rightarrow> (string \<times> pyval) list \<Rightarrow> (string \<times> pyval) list" where
  "rule_time_fields L object_type values = foldl (rule_time_field L) values (time_fields_for object_type)"

definition numeric_exclusions :: "string set" where
  "numeric_exclusions =
     {''id'', ''account_id'', ''campaign_id'', ''adset_id'', ''creative_id'', ''parent_id'',
      ''existing_creative_id''}"

text \<open>
  The last loop of \<open>_apply_dict_rules\<close>, for one entry: \<open>int(stripped)\<close> raises \<open>ValueError\<close> on
  a text that \<open>isdigit\<close> accepts and that holds a superscript digit.
\<close>

fun coerce_numeric_entry :: "string \<times> pyval \<Rightarrow> py_exception + string \<times> pyval" where
  "coerce_numeric_entry (k, PStr s) =
     (let stripped = py_strip s
      in if stripped = [] then Inr (k, PStr s)
         else if k \<in> numeric_exclusions \<or> endswith k ''_id'' \<or> endswith k ''_ids'' then Inr (k, PStr s)
         else if py_isdigit stripped
           then (if list_all is_ascii_digit stripped then Inr (k, PInt (dec_value stripped))
                 else Inl ValueError)
         else (case float_of_string stripped of
                 None \<Rightarrow> Inr (k, PStr s)
               | Some numeric_value \<Rightarrow> Inr (k, PFloat numeric_value)))"
| "coerce_numeric_entry (k, v) = Inr (k, v)"

fun rule_numeric_strings :: "(string \<times> pyval) list \<Rightarrow> py_exception + (string \<times> pyval) list" where
  "rule_numeric_strings [] = Inr []"
| "rule_numeric_strings (kv # kvs) =
     (case coerce_numeric_entry kv of
        Inl e \<Rightarrow> Inl e
      | Inr kv' \<Rightarrow> (case rule_numeric_strings kvs of Inl e \<Rightarrow> Inl e | Inr kvs' \<Rightarrow> Inr (kv' # kvs')))"

definition apply_dict_rules ::
  "pylib \<Rightarrow> datetime \<Rightarrow> string \<Rightarrow> nat \<Rightarrow> (string \<times> pyval) list \<Rightarrow> py_exception + (string \<times> pyval) list"
where
  "apply_dict_rules L now_utc object_type depth values =
     (if values = [] then Inr values
      else (case rule_budgets values of
              Inl e \<Rightarrow> Inl e
            | Inr v1 \<Rightarrow>
                (case rule_spend_cap v1 of
                   Inl e \<Rightarrow> Inl e
                 | Inr v2 \<Rightarrow>
                     rule_numeric_strings
                       (rule_time_fields L object_type
                          (rule_start_time L now_utc
                             (rule_brand_safety L
                                (rule_special_ad_categories L depth v2)))))))"

fun sanitize_value :: "pylib \<Rightarrow> datetime \<Rightarrow> string \<Rightarrow> nat \<Rightarrow> pyval \<Rightarrow> py_exception + pyval"
  and sanitize_items :: "pylib \<Rightarrow> datetime \<Rightarrow> string \<Rightarrow> nat \<Rightarrow> pyval list \<Rightarrow> py_exception + pyval list"
  and sanitize_entries ::
    "pylib \<Rightarrow> datetime \<Rightarrow> string \<Rightarrow> nat \<Rightarrow> (string \<times> pyval) list \<Rightarrow> py_exception + (string \<times> pyval) list"
where
  "sanitize_value L now_utc object_type depth (PDict kvs) =
     (case sanitize_entries L now_utc object_type (Suc depth) kvs of
        Inl e \<Rightarrow> Inl e
      | Inr sanitized_dict \<Rightarrow>
          (case apply_dict_rules L now_utc object_type depth sanitized_dict of
             Inl e \<Rightarrow> Inl e
           | Inr d \<Rightarrow> Inr (PDict d)))"
| "sanitize_value L now_utc object_type depth (PList xs) =
     (case sanitize_items L now_utc object_type (Suc depth) xs of
        Inl e \<Rightarrow> Inl e
      | Inr ys \<Rightarrow> Inr (PList ys))"
| "sanitize_value L now_utc object_type depth PNone = Inr PNone"
| "sanitize_value L now_utc object_type depth (PBool b) = Inr (PBool b)"
| "sanitize_value L now_utc object_type depth (PInt n) = Inr (PInt n)"
| "sanitize_value L now_utc object_type depth (PFloat f) = Inr (PFloat f)"
| "sanitize_value L now_utc object_type depth (PStr s) = Inr (PStr s)"
| "sanitize_items L now_utc object_type depth [] = Inr []"
| "sanitize_items L now_utc object_type depth (x # xs) =
     (case sanitize_value L now_utc object_type depth x of
        Inl e \<Rightarrow> Inl e
      | Inr y \<Rightarrow>
          (case sanitize_items L now_utc object_type depth xs of
             Inl e \<Rightarrow> Inl e
           | Inr ys \<Rightarrow> Inr (y # ys)))"
| "sanitize_entries L now_utc object_type depth [] = Inr []"
| "sanitize_entries L now_utc object_type depth ((k, v) # kvs) =
     (case sanitize_value L now_utc object_type depth v of
        Inl e \<Rightarrow> Inl e
      | Inr v' \<Rightarrow>
          (case sanitize_entries L now_utc object_type depth kvs of
             Inl e \<Rightarrow> Inl e
           | Inr kvs' \<Rightarrow> Inr ((k, v') # kvs')))"

fun sanitize_payload :: "pylib \<Rightarrow> datetime \<Rightarrow> pyval \<Rightarrow> string \<Rightarrow> py_exception + pyval" where
  "sanitize_payload L now_utc (PDict kvs) object_type =
     sanitize_value L now_utc (py_lower object_type) 0 (PDict kvs)"
| "sanitize_payload L now_utc (PList xs) object_type =
     (case sanitize_items L now_utc (py_lower object_type) 0 xs of Inl e \<Rightarrow> Inl e | Inr ys \<Rightarrow> Inr (PList ys))"
| "sanitize_payload L now_utc data object_type = Inr data"


section \<open>The request executor: \<open>src/utils/api_helpers.py\<close>\<close>

text \<open>
  A \<open>FacebookRequestError\<close> is seen by the executor only through
  \<open>_extract_error_code\<close> and \<open>_extract_error_subcode\<close>, which read an attribute, call it
  when it is callable, and convert the result with \<open>int\<close>, answering \<open>None\<close> when nothing
  converts. The model keeps the two answers.
\<close>

datatype request_error = RequestError (api_error_code: "int option") (api_error_subcode: "int option")

definition RATE_LIMIT_ERROR_CODES :: "int set" where
  "RATE_LIMIT_ERROR_CODES = {4, 17, 32, 613, 80004}"

definition ACCOUNT_RATE_LIMIT_SUBCODES :: "int set" where
  "ACCOUNT_RATE_LIMIT_SUBCODES = {2446079, 2446094, 2446095}"

definition ACCOUNT_RATE_LIMIT_BACKOFF_SECONDS :: rat where
  "ACCOUNT_RATE_LIMIT_BACKOFF_SECONDS = 600"

definition extract_error_code :: "request_error \<Rightarrow> int option" where
  "extract_error_code e = api_error_code e"

definition extract_error_subcode :: "request_error \<Rightarrow> int option" where
  "extract_error_subcode e = api_error_subcode e"

text \<open>\<open>x in S\<close> for an optional integer: \<open>None\<close> is in no set of integers.\<close>

definition opt_in :: "int option \<Rightarrow> int set \<Rightarrow> bool" where
  "opt_in x S = (case x of None \<Rightarrow> False | Some c \<Rightarrow> c \<in> S)"

definition is_rate_limited :: "request_error \<Rightarrow> bool" where
  "is_rate_limited e =
     (opt_in (extract_error_code e) RATE_LIMIT_ERROR_CODES
      \<or> opt_in (extract_error_subcode e) ACCOUNT_RATE_LIMIT_SUBCODES)"

text \<open>
  What one invocation of the call function does: it returns a value (Python's \<open>None\<close> is the
  value \<open>None\<close>), raises a \<open>FacebookRequestError\<close>, or raises another \<open>Exception\<close>. The call
  function acts on a world \<open>'w\<close> (the remote platform and whatever else it touches).
\<close>

datatype 'a call_outcome =
    Returned "'a option"
  | RaisedRequestError request_error
  | RaisedException

type_synonym ('a, 'w) api_call = "'w \<Rightarrow> 'a call_outcome \<times> 'w"

text \<open>What the executor prints and how long it sleeps, in order.\<close>

datatype api_event =
    ApiRequestError "int option" "int option" int int
  | NoRetry
  | RetryingAfter rat
  | UnexpectedError

text \<open>
  The loop of \<open>make_api_request\<close>, from the value of \<open>attempt\<close> on. \<open>jitter a\<close> is the number
  that \<open>random.uniform(0, 0.5)\<close> draws at attempt \<open>a\<close>. \<open>time.sleep\<close> raises \<open>ValueError\<close> on a
  negative length, inside the \<open>except\<close> clause, so that exception reaches the caller. Seconds
  are floats in the source and rationals here.
\<close>

function make_api_request_from ::
  "('a, 'w) api_call \<Rightarrow> int \<Rightarrow> rat \<Rightarrow> (int \<Rightarrow> rat) \<Rightarrow> int \<Rightarrow> 'w \<Rightarrow> api_event list
     \<Rightarrow> (py_exception + 'a option) \<times> 'w \<times> api_event list"
where
  "make_api_request_from api_call_function max_retries initial_backoff jitter attempt w evs =
     (if attempt < max_retries then
        (case api_call_function w of
           (Returned r, w') \<Rightarrow> (Inr r, w', evs)
         | (RaisedRequestError e, w') \<Rightarrow>
             (let error_code = extract_error_code e;
                  error_subcode = extract_error_subcode e;
                  should_retry = (is_rate_limited e \<and> attempt < max_retries - 1);
                  evs1 = evs @ [ApiRequestError error_code error_subcode (attempt + 1) max_retries]
              in if \<not> should_retry then (Inr None, w', evs1 @ [NoRetry])
                 else
                   (let backoff_time = initial_backoff * 2 ^ nat attempt;
                        backoff_time' =
                          (if opt_in error_subcode ACCOUNT_RATE_LIMIT_SUBCODES
                           then max backoff_time ACCOUNT_RATE_LIMIT_BACKOFF_SECONDS
                           else backoff_time);
                        sleep_time = backoff_time' + jitter attempt
                    in if sleep_time < 0 then (Inl ValueError, w', evs1 @ [RetryingAfter sleep_time])
                       else make_api_request_from api_call_function max_retries initial_backoff
                              jitter (attempt + 1) w' (evs1 @ [RetryingAfter sleep_time])))
         | (RaisedException, w') \<Rightarrow> (Inr None, w', evs @ [UnexpectedError]))
      else (Inr None, w, evs))"
  by pat_completeness auto
termination
  by (relation "measure (\<lambda>(f, m, b, j, a, w, evs). nat (m - a))") auto

declare make_api_request_from.simps [simp del]

definition make_api_request ::
  "('a, 'w) api_call \<Rightarrow> int \<Rightarrow> rat \<Rightarrow> (int \<Rightarrow> rat) \<Rightarrow> 'w
     \<Rightarrow> (py_exception + 'a option) \<times> 'w \<times> api_event list"
where
  "make_api_request api_call_function max_retries initial_backoff jitter w =
     make_api_request_from api_call_function max_retries initial_backoff jitter 0 w []"

text \<open>
  Counting the invocations of a call function: the world is paired with a counter that every
  invocation increments.
\<close>

definition counting :: "('a, 'w) api_call \<Rightarrow> ('a, 'w \<times> nat) api_call" where
  "counting f = (\<lambda>(w, n). case f w of (out, w') \<Rightarrow> (out, (w', Suc n)))"

definition invocations :: "(py_exception + 'a option) \<times> ('w \<times> nat) \<times> api_event list \<Rightarrow> nat" where
  "invocations r = snd (fst (snd r))"

text \<open>A call function that is rate limited whenever it is invoked, used to run the executor.\<close>

definition throttled_call :: "(unit, unit) api_call" where
  "throttled_call = (\<lambda>w. (RaisedRequestError (RequestError (Some 17) None), w))"

section \<open>A library excerpt for running the model\<close>

text \<open>
  \<open>json.loads\<close>, \<open>datetime.fromisoformat\<close>, \<open>strptime\<close>, \<open>fromtimestamp\<close>, \<open>isoformat\<close> and
  the \<open>str\<close> of floats and containers are parameters of the model (the record \<open>pylib\<close>):
  every general theorem holds for any library. To run the model on a concrete payload a library
  is needed; \<open>sample_lib\<close> is a finite excerpt: its decoders know the texts listed and fail on
  every other text. The payloads that are run below reach the decoders with no other text.
\<close>

definition sample_lib :: pylib where
  "sample_lib =
     \<lparr>json_loads = (\<lambda>s. if s = ''[]'' then Some (PList []) else if s = ''null'' then Some PNone else None),
      fromisoformat = (\<lambda>s. if s = ''2030-01-01T00:00:00+00:00''
                            then Some \<lparr>wall_us = 1893456000000000, utcoffset_us = Some 0\<rparr> else None),
      strptime = (\<lambda>s fmt. None),
      fromtimestamp = (\<lambda>f. None),
      isoformat = (\<lambda>d. if d = \<lparr>wall_us = 1893456000000000, utcoffset_us = Some 0\<rparr>
                        then ''2030-01-01T00:00:00+00:00'' else ''1970-01-01T00:00:00+00:00''),
      repr_of = (\<lambda>v. ''<repr>'')\<rparr>"

definition sample_now :: datetime where
  "sample_now = \<lparr>wall_us = 1893456000000000, utcoffset_us = Some 0\<rparr>"

text \<open>
  The values of \<open>special_ad_categories\<close> that \<open>_normalize_string_collection\<close> takes to the
  empty list or cannot read: \<open>None\<close>, a blank text or the text \<open>[]\<close>, the empty list, and
  whatever is neither a text nor a list.
\<close>

fun blank_or_unparsable :: "pyval \<Rightarrow> bool" where
  "blank_or_unparsable (PStr s) = (py_strip s = [] \<or> py_strip s = ''[]'')"
| "blank_or_unparsable (PList xs) = (xs = [])"
| "blank_or_unparsable v = True"

chapter \<open>Properties\<close>

section \<open>Properties of the request executor\<close>


lemma exhausted_no_call:
  "\<not> attempt < N \<Longrightarrow> make_api_request_from g N b j attempt w evs = (Inr None, w, evs)"
  by (simp add: make_api_request_from.simps)







text \<open>
  Claim C10. With \<open>max_retries \<le> 0\<close> the executor returns \<open>None\<close> and the call function is
  never invoked: the world is the one it started from and nothing was printed.
\<close>

theorem make_api_request_no_retries:
  "max_retries \<le> 0 \<Longrightarrow>
     make_api_request api_call_function max_retries initial_backoff jitter w = (Inr None, w, [])
     \<and> invocations (make_api_request (counting api_call_function) max_retries initial_backoff jitter (w, 0)) = 0"
  by (simp add: make_api_request_def exhausted_no_call invocations_def)

theorem make_api_request_no_retries_witness:
  "make_api_request throttled_call 0 1 (\<lambda>a. 1 / 4) () = (Inr None, (), [])
   \<and> invocations (make_api_request (counting throttled_call) 0 1 (\<lambda>a. 1 / 4) ((), 0)) = 0"
  using make_api_request_no_retries[where max_retries = 0 and api_call_function = throttled_call
      and initial_backoff = 1 and jitter = "\<lambda>a. 1 / 4" and w = "()"] by simp

section \<open>Properties of the per-field normalisation\<close>

lemma py_strip_Nil [simp]: "py_strip [] = []"
  by (simp add: py_strip_def)

lemma float_of_string_Nil [simp]: "float_of_string [] = None"
  by (simp add: float_of_string_def)

text \<open>
  Claim C8 (amended). For a budget-class field: a blank text gives \<open>None\<close>; an integer, a
  finite float and a text that \<open>float\<close> reads as a finite number give the text of the rounded
  integer; a text that \<open>float\<close> does not read is passed through with the white space around
  it removed.
\<close>

theorem normalize_input_value_budget:
  assumes "field_name \<in> BUDGET_FIELDS"
  shows "(py_strip s = [] \<longrightarrow> normalize_input_value L field_name (PStr s) original_value = Inr PNone)
       \<and> normalize_input_value L field_name (PInt n) original_value = Inr (PStr (str_of_int n))
       \<and> normalize_input_value L field_name (PFloat (Finite q)) original_value
           = Inr (PStr (str_of_int (round_half_even q)))
       \<and> (float_of_string (py_strip s) = Some (Finite q) \<longrightarrow>
            normalize_input_value L field_name (PStr s) original_value
              = Inr (PStr (str_of_int (round_half_even q))))
       \<and> (py_strip s \<noteq> [] \<and> float_of_string (py_strip s) = None \<longrightarrow>
            normalize_input_value L field_name (PStr s) original_value = Inr (PStr (py_strip s)))"
  using assms by (auto simp: normalize_input_value_def Let_def)

theorem normalize_input_value_budget_witness:
  "normalize_input_value sample_lib ''daily_budget'' (PStr []) PNone = Inr PNone
   \<and> normalize_input_value sample_lib ''daily_budget'' (PInt 1500) PNone = Inr (PStr ''1500'')
   \<and> normalize_input_value sample_lib ''daily_budget'' (PFloat (Finite (5 / 2))) PNone = Inr (PStr ''2'')
   \<and> normalize_input_value sample_lib ''daily_budget'' (PStr '' 12.5 '') PNone = Inr (PStr ''12'')
   \<and> normalize_input_value sample_lib ''daily_budget'' (PStr '' abc '') PNone = Inr (PStr ''abc'')"
proof -
  have m: "''daily_budget'' \<in> BUDGET_FIELDS" by (simp add: BUDGET_FIELDS_def)
  have e: "py_strip [] = []" by simp
  have f: "float_of_string (py_strip '' 12.5 '') = Some (Finite (25 / 2))" by code_simp
  have g: "py_strip '' abc '' \<noteq> [] \<and> float_of_string (py_strip '' abc '') = None" by code_simp
  have g': "py_strip '' abc '' = ''abc''" by code_simp
  have r1: "str_of_int 1500 = ''1500''" by code_simp
  have r2: "str_of_int (round_half_even (5 / 2)) = ''2''" by code_simp
  have r3: "str_of_int (round_half_even (25 / 2)) = ''12''" by code_simp
  from normalize_input_value_budget[OF m, of "[]" sample_lib PNone 1500 "5 / 2"]
       normalize_input_value_budget[OF m, of "'' 12.5 ''" sample_lib PNone 0 "25 / 2"]
       normalize_input_value_budget[OF m, of "'' abc ''" sample_lib PNone 0 0]
       e f g g' r1 r2 r3
  show ?thesis by simp
qed

text \<open>
  The claim as stated (a text that is not a number is passed through unchanged) fails on a text
  with white space around it.
\<close>

theorem normalize_input_value_budget_counterexample:
  "float_of_string '' abc '' = None
   \<and> normalize_input_value sample_lib ''daily_budget'' (PStr '' abc '') PNone = Inr (PStr ''abc'')
   \<and> PStr ''abc'' \<noteq> PStr '' abc ''"
  by code_simp

section \<open>Properties of the structural sanitizer\<close>

lemma map_of_dict_set: "map_of (dict_set k v d) k' = (if k' = k then Some v else map_of d k')"
  by (simp add: dict_set_def update_conv')

lemma map_of_dict_pop: "map_of (dict_pop k d) k' = (if k' = k then None else map_of d k')"
  by (simp add: dict_pop_def delete_conv')

lemma dict_get_dict_set: "dict_get (dict_set k v d) k' = (if k' = k then v else dict_get d k')"
  by (simp add: dict_get_def map_of_dict_set)

lemma dict_get_dict_pop: "dict_get (dict_pop k d) k' = (if k' = k then PNone else dict_get d k')"
  by (simp add: dict_get_def map_of_dict_pop)

lemma has_key_dict_set: "has_key (dict_set k v d) k' = (k' = k \<or> has_key d k')"
  by (simp add: has_key_def map_of_dict_set)

lemma has_key_dict_pop: "has_key (dict_pop k d) k' = (k' \<noteq> k \<and> has_key d k')"
  by (simp add: has_key_def map_of_dict_pop)

lemma rule_budgets_other:
  assumes "rule_budgets d = Inr d'" "k \<noteq> ''daily_budget''" "k \<noteq> ''lifetime_budget''"
  shows "map_of d' k = map_of d k"
  using assms
  by (auto simp: rule_budgets_def map_of_dict_set map_of_dict_pop split: if_splits sum.splits option.splits)

lemma rule_spend_cap_other:
  assumes "rule_spend_cap d = Inr d'" "k \<noteq> ''spend_cap''"
  shows "map_of d' k = map_of d k"
  using assms
  by (auto simp: rule_spend_cap_def Let_def map_of_dict_set map_of_dict_pop split: if_splits sum.splits option.splits)

lemma rule_brand_safety_field_other:
  "k \<noteq> f \<Longrightarrow> map_of (rule_brand_safety_field L d f) k = map_of d k"
  by (simp add: rule_brand_safety_field_def map_of_dict_set map_of_dict_pop split: option.splits)

lemma rule_brand_safety_other:
  "k \<notin> set brand_safety_fields \<Longrightarrow> map_of (rule_brand_safety L d) k = map_of d k"
  by (simp add: rule_brand_safety_def brand_safety_fields_def rule_brand_safety_field_other)

lemma rule_start_time_other:
  "k \<noteq> ''start_time'' \<Longrightarrow> map_of (rule_start_time L now d) k = map_of d k"
  by (simp add: rule_start_time_def Let_def map_of_dict_set map_of_dict_pop split: option.splits)

lemma rule_time_field_other:
  "k \<noteq> f \<Longrightarrow> map_of (rule_time_field L d f) k = map_of d k"
  by (simp add: rule_time_field_def Let_def map_of_dict_set map_of_dict_pop split: option.splits)

lemma rule_time_fields_other:
  "k \<noteq> ''stop_time'' \<Longrightarrow> k \<noteq> ''end_time'' \<Longrightarrow> map_of (rule_time_fields L ot d) k = map_of d k"
  by (simp add: rule_time_fields_def time_fields_for_def rule_time_field_other)

lemma coerce_numeric_entry_key: "coerce_numeric_entry kv = Inr kv' \<Longrightarrow> fst kv' = fst kv"
  by (cases kv; cases "snd kv") (auto simp: Let_def split: if_splits option.splits)

lemma coerce_numeric_entry_not_str:
  "\<not> is_str v \<Longrightarrow> coerce_numeric_entry (k, v) = Inr (k, v)"
  by (cases v) auto

lemma rule_numeric_strings_not_str:
  assumes "rule_numeric_strings d = Inr d'" "map_of d k = Some v" "\<not> is_str v"
  shows "map_of d' k = Some v"
  using assms
proof (induction d arbitrary: d')
  case Nil
  then show ?case by simp
next
  case (Cons kv d)
  obtain k0 v0 where kv: "kv = (k0, v0)" by (cases kv)
  from Cons.prems(1) obtain kv' ds' where
    c: "coerce_numeric_entry kv = Inr kv'" and r: "rule_numeric_strings d = Inr ds'" and d': "d' = kv' # ds'"
    by (auto split: sum.splits)
  from coerce_numeric_entry_key[OF c] kv obtain v0' where kv': "kv' = (k0, v0')" by (cases kv') auto
  show ?case
  proof (cases "k = k0")
    case True
    with Cons.prems(2) kv have "v0 = v" by simp
    with c kv kv' Cons.prems(3) have "v0' = v" by (simp add: coerce_numeric_entry_not_str)
    with True d' kv' show ?thesis by simp
  next
    case False
    with Cons.prems(2) kv have "map_of d k = Some v" by simp
    from Cons.IH[OF r this Cons.prems(3)] False d' kv' show ?thesis by simp
  qed
qed

lemma sanitize_entries_lookup:
  "sanitize_entries L now ot depth kvs = Inr kvs' \<Longrightarrow>
     (kvs' = [] \<longleftrightarrow> kvs = []) \<and>
     (case map_of kvs k of
        None \<Rightarrow> map_of kvs' k = None
      | Some v \<Rightarrow> \<exists>v'. sanitize_value L now ot depth v = Inr v' \<and> map_of kvs' k = Some v')"
proof (induction kvs arbitrary: kvs')
  case Nil
  then show ?case by simp
next
  case (Cons kv kvs)
  obtain k0 v0 where kv: "kv = (k0, v0)" by (cases kv)
  from Cons.prems kv obtain v0' rest where
    v: "sanitize_value L now ot depth v0 = Inr v0'" and r: "sanitize_entries L now ot depth kvs = Inr rest"
    and k: "kvs' = (k0, v0') # rest"
    by (auto split: sum.splits)
  from Cons.IH[OF r] v k kv show ?case by (auto split: option.splits)
qed

lemma sanitize_value_blank:
  "sanitize_value L now ot depth v = Inr v' \<Longrightarrow> blank_or_unparsable v \<Longrightarrow>
     normalize_string_collection L v' = None \<or> normalize_string_collection L v' = Some []"
  by (cases v) (auto simp: Let_def split: sum.splits)

lemma rule_special_ad_categories_top:
  "\<exists>xs. map_of (rule_special_ad_categories L 0 d) ''special_ad_categories'' = Some (PList (map PStr xs))
     \<and> (normalize_string_collection L (dict_get d ''special_ad_categories'') \<in> {None, Some []} \<longrightarrow> xs = [])"
  by (auto simp: rule_special_ad_categories_def map_of_dict_set split: option.splits)

lemma apply_dict_rules_categories:
  assumes d: "d \<noteq> []" and r: "apply_dict_rules L now ot 0 d = Inr out"
  shows "\<exists>xs. map_of out ''special_ad_categories'' = Some (PList (map PStr xs))
           \<and> (normalize_string_collection L (dict_get d ''special_ad_categories'') \<in> {None, Some []} \<longrightarrow> xs = [])"
proof -
  from d r obtain v1 v2 where
    b: "rule_budgets d = Inr v1" and s: "rule_spend_cap v1 = Inr v2"
    and n: "rule_numeric_strings
              (rule_time_fields L ot (rule_start_time L now (rule_brand_safety L
                 (rule_special_ad_categories L 0 v2)))) = Inr out"
    by (auto simp: apply_dict_rules_def split: sum.splits)
  have same: "dict_get v2 ''special_ad_categories'' = dict_get d ''special_ad_categories''"
    using rule_budgets_other[OF b, of "''special_ad_categories''"]
          rule_spend_cap_other[OF s, of "''special_ad_categories''"]
    by (simp add: dict_get_def)
  from rule_special_ad_categories_top[of L v2] obtain xs where
    xs: "map_of (rule_special_ad_categories L 0 v2) ''special_ad_categories'' = Some (PList (map PStr xs))"
    and e: "normalize_string_collection L (dict_get v2 ''special_ad_categories'') \<in> {None, Some []} \<longrightarrow> xs = []"
    by blast
  have "map_of (rule_time_fields L ot (rule_start_time L now (rule_brand_safety L
                 (rule_special_ad_categories L 0 v2)))) ''special_ad_categories''
          = Some (PList (map PStr xs))"
    using xs
    by (simp add: rule_time_fields_other rule_start_time_other rule_brand_safety_other
        brand_safety_fields_def)
  from rule_numeric_strings_not_str[OF n this] have "map_of out ''special_ad_categories'' = Some (PList (map PStr xs))"
    by simp
  with e same show ?thesis by auto
qed

text \<open>
  Claim C9 (amended). For a dict payload that is not empty, of any object kind, whenever the
  sanitizer returns, the top level of its output holds \<open>special_ad_categories\<close> with a list of
  texts, and that list is empty when the input lacks the key or holds a blank or unreadable
  value under it.
\<close>

theorem sanitize_payload_special_ad_categories:
  assumes "kvs \<noteq> []" and "sanitize_payload L now_utc (PDict kvs) object_type = Inr out"
  shows "\<exists>d xs. out = PDict d
           \<and> map_of d ''special_ad_categories'' = Some (PList (map PStr xs))
           \<and> ((case map_of kvs ''special_ad_categories'' of None \<Rightarrow> True | Some v \<Rightarrow> blank_or_unparsable v)
                \<longrightarrow> xs = [])"
proof -
  from assms(2) obtain kvs' d where
    e: "sanitize_entries L now_utc (py_lower object_type) (Suc 0) kvs = Inr kvs'"
    and a: "apply_dict_rules L now_utc (py_lower object_type) 0 kvs' = Inr d" and out: "out = PDict d"
    by (auto split: sum.splits)
  from sanitize_entries_lookup[OF e, of "''special_ad_categories''"] assms(1)
  have ne: "kvs' \<noteq> []"
    and lk: "case map_of kvs ''special_ad_categories'' of
               None \<Rightarrow> map_of kvs' ''special_ad_categories'' = None
             | Some v \<Rightarrow> \<exists>v'. sanitize_value L now_utc (py_lower object_type) (Suc 0) v = Inr v'
                             \<and> map_of kvs' ''special_ad_categories'' = Some v'"
    by auto
  from apply_dict_rules_categories[OF ne a] obtain xs where
    xs: "map_of d ''special_ad_categories'' = Some (PList (map PStr xs))"
    and em: "normalize_string_collection L (dict_get kvs' ''special_ad_categories'') \<in> {None, Some []} \<longrightarrow> xs = []"
    by blast
  have "xs = []" if b: "case map_of kvs ''special_ad_categories'' of None \<Rightarrow> True | Some v \<Rightarrow> blank_or_unparsable v"
  proof (cases "map_of kvs ''special_ad_categories''")
    case None
    with lk have "dict_get kvs' ''special_ad_categories'' = PNone" by (simp add: dict_get_def)
    with em show ?thesis by simp
  next
    case (Some v)
    with lk obtain v' where v': "sanitize_value L now_utc (py_lower object_type) (Suc 0) v = Inr v'"
      and g: "map_of kvs' ''special_ad_categories'' = Some v'" by auto
    from b Some have "blank_or_unparsable v" by simp
    from sanitize_value_blank[OF v' this] g em show ?thesis by (auto simp: dict_get_def)
  qed
  with out xs show ?thesis by blast
qed

theorem sanitize_payload_special_ad_categories_witness:
  "sanitize_payload sample_lib sample_now (PDict [(''name'', PStr ''Spring'')]) ''campaign''
     = Inr (PDict [(''name'', PStr ''Spring''), (''special_ad_categories'', PList [])])
   \<and> (\<exists>d xs. PDict [(''name'', PStr ''Spring''), (''special_ad_categories'', PList [])] = PDict d
           \<and> map_of d ''special_ad_categories'' = Some (PList (map PStr xs)) \<and> xs = [])"
proof -
  have r: "sanitize_payload sample_lib sample_now (PDict [(''name'', PStr ''Spring'')]) ''campaign''
             = Inr (PDict [(''name'', PStr ''Spring''), (''special_ad_categories'', PList [])])"
    by code_simp
  have ne: "[(''name'', PStr ''Spring'')] \<noteq> []" by simp
  from sanitize_payload_special_ad_categories[OF ne r] r show ?thesis by simp
qed

text \<open>
  The claim as stated fails on the empty dict: \<open>_apply_dict_rules\<close> returns an empty dict as
  it is.
\<close>

theorem sanitize_payload_special_ad_categories_counterexample:
  "sanitize_payload sample_lib sample_now (PDict []) ''campaign'' = Inr (PDict [])
   \<and> map_of ([] :: (string \<times> pyval) list) ''special_ad_categories'' = None"
  by code_simp

text \<open>
  Claim C4, at a failing input. \<open>_parse_positive_amount\<close> tests \<open>amount <= 0\<close> before it rounds,
  so a daily budget of \<open>0.25\<close> counts as positive and is stored as \<open>0\<close>, and the lifetime budget
  of \<open>100\<close> is dropped for it.
\<close>

theorem sanitize_payload_zero_daily_budget:
  "sanitize_payload sample_lib sample_now
     (PDict [(''daily_budget'', PFloat (Finite (1 / 4))), (''lifetime_budget'', PInt 100)]) ''campaign''
   = Inr (PDict [(''daily_budget'', PInt 0), (''special_ad_categories'', PList [])])"
  by code_simp

text \<open>
  Claim C7, at a failing input, with the same library and the same reference time in both runs:
  the first run stores the daily budget \<open>0.25\<close> as \<open>0\<close>, the second run removes it.
\<close>

theorem sanitize_payload_not_idempotent:
  "sanitize_payload sample_lib sample_now (PDict [(''daily_budget'', PFloat (Finite (1 / 4)))]) ''campaign''
     = Inr (PDict [(''daily_budget'', PInt 0), (''special_ad_categories'', PList [])])
   \<and> sanitize_payload sample_lib sample_now
       (PDict [(''daily_budget'', PInt 0), (''special_ad_categories'', PList [])]) ''campaign''
     = Inr (PDict [(''special_ad_categories'', PList [])])"
  by code_simp

end
